theory Spec2Isabelle
  imports Complex_Main
begin

section \<open>Common notions\<close>

text \<open>
  JavaScript errors that the modelled code can meet. A promise that an \<^verbatim>\<open>async\<close>
  function returns is either resolved or rejected; a rejection does not undo the
  assignments made before it, so both outcomes carry the state of the object.
\<close>

datatype js_error = SyntaxError | TypeError | InvalidStateError | OperationError

datatype 's outcome = Resolved 's | Rejected js_error 's

fun state_of :: "'s outcome \<Rightarrow> 's" where
  "state_of (Resolved s) = s"
| "state_of (Rejected e s) = s"

fun is_rejected :: "'s outcome \<Rightarrow> bool" where
  "is_rejected (Resolved s) = False"
| "is_rejected (Rejected e s) = True"

section \<open>Signaling server (src/server/signaling-server.js)\<close>

subsection \<open>Values and messages\<close>

text \<open>
  The values that a field of a parsed message can hold are the primitive values of
  JSON, and \<^verbatim>\<open>undefined\<close> for a field that is absent. (A stream id that is an array or
  an object would be a key of the \<^verbatim>\<open>Map\<close> by reference; such ids are outside the
  model.) Numbers are integers here.
\<close>

datatype jsval = JUndefined | JNull | JBool bool | JNum int | JStr string

fun truthy :: "jsval \<Rightarrow> bool" where
  "truthy JUndefined = False"
| "truthy JNull = False"
| "truthy (JBool b) = b"
| "truthy (JNum n) = (n \<noteq> 0)"
| "truthy (JStr s) = (s \<noteq> [])"

text \<open>
  A connection is the identity of a \<^verbatim>\<open>ws\<close> object. The fields of an inbound message
  that the server reads: \<^verbatim>\<open>type\<close>, \<^verbatim>\<open>streamId\<close>, \<^verbatim>\<open>data\<close> (the relayed payload, kept
  as its JSON text, \<open>None\<close> when absent) and \<^verbatim>\<open>targetViewerId\<close>.
\<close>

type_synonym conn = nat

record in_msg =
  mtype :: jsval
  streamId :: jsval
  data :: "string option"
  targetViewerId :: jsval

text \<open>
  What \<^verbatim>\<open>JSON.parse(message)\<close> makes of the raw text: it throws, or returns \<^verbatim>\<open>null\<close>,
  or a value that is not an object with fields (a number, a string, a boolean, an
  array: every field read of it is \<^verbatim>\<open>undefined\<close>), or an object.
\<close>

datatype raw = Unparseable | ParsedNull | ParsedOther | ParsedObject in_msg

definition no_fields :: in_msg where
  "no_fields = \<lparr>mtype = JUndefined, streamId = JUndefined, data = None,
                 targetViewerId = JUndefined\<rparr>"

datatype role = Broadcaster | Viewer

datatype readyState = CONNECTING | OPEN | CLOSING | CLOSED

text \<open>
  The messages the server writes: \<^verbatim>\<open>{type: 'broadcaster-available'}\<close>,
  \<^verbatim>\<open>{type: 'broadcaster-left'}\<close>, \<^verbatim>\<open>{type: 'viewer-request', viewerId}\<close>, and the
  relayed \<^verbatim>\<open>{type, data}\<close> or \<^verbatim>\<open>{type, data, viewerId}\<close>.
\<close>

datatype out_msg =
    BroadcasterAvailable
  | BroadcasterLeft
  | ViewerRequest string
  | Relay string "string option" "string option"

text \<open>
  What a handler does to the outside: a call of \<^verbatim>\<open>send\<close> on a connection, a
  \<^verbatim>\<open>console.error\<close> of a caught error, or closing a connection. The server source has
  no call of \<^verbatim>\<open>close\<close> or \<^verbatim>\<open>terminate\<close> on a connection, so no handler below
  produces \<open>CloseSocket\<close>; the constructor is there for the absence to be stated.
  A call of \<^verbatim>\<open>send\<close> is recorded as it is made; what the transport does with it is not
  modelled.
\<close>

datatype effect = Send conn out_msg | LogError js_error | CloseSocket conn

text \<open>A \<^verbatim>\<open>try\<close> block runs to its end, or throws with the state reached so far.\<close>

datatype 's completion = Normal 's | Thrown js_error 's

subsection \<open>The registry\<close>

text \<open>
  \<^verbatim>\<open>streams\<close>: streamId -> \<^verbatim>\<open>{ broadcaster: ws, viewers: Set<ws> }\<close>. The set keeps
  insertion order (\<^verbatim>\<open>Array.from\<close> and \<^verbatim>\<open>forEach\<close> follow it) and has no duplicates.
  Each connection has its own \<^verbatim>\<open>currentStreamId\<close> and \<^verbatim>\<open>role\<close> (both \<^verbatim>\<open>null\<close> at
  first), and a \<^verbatim>\<open>readyState\<close> that the transport owns.
\<close>

record session =
  broadcaster :: "conn option"
  viewers :: "conn list"

record server =
  streams :: "jsval \<Rightarrow> session option"
  currentStreamId :: "conn \<Rightarrow> jsval"
  role :: "conn \<Rightarrow> role option"
  readyStateOf :: "conn \<Rightarrow> readyState"

definition init :: server where
  "init = \<lparr>streams = (\<lambda>_. None), currentStreamId = (\<lambda>_. JNull), role = (\<lambda>_. None),
           readyStateOf = (\<lambda>_. OPEN)\<rparr>"

definition new_session :: session where
  "new_session = \<lparr>broadcaster = None, viewers = []\<rparr>"

definition set_add :: "'a \<Rightarrow> 'a list \<Rightarrow> 'a list" where
  "set_add x xs = (if x \<in> set xs then xs else xs @ [x])"

definition set_delete :: "'a \<Rightarrow> 'a list \<Rightarrow> 'a list" where
  "set_delete x xs = removeAll x xs"

subsection \<open>Viewer ids\<close>

text \<open>\<^verbatim>\<open>Array.prototype.indexOf\<close>: the first index of the element, or -1.\<close>

fun indexOf :: "'a list \<Rightarrow> 'a \<Rightarrow> int" where
  "indexOf [] x = - 1"
| "indexOf (y # ys) x =
     (if y = x then 0 else (let i = indexOf ys x in if i < 0 then - 1 else i + 1))"

text \<open>The decimal digits of a number, as a template literal prints an index.\<close>

definition digit :: "nat \<Rightarrow> char" where
  "digit d = ''0123456789'' ! d"

function decimal :: "nat \<Rightarrow> string" where
  "decimal n = (if n < 10 then [digit n] else decimal (n div 10) @ [digit (n mod 10)])"
  by pat_completeness auto
termination
  by (relation "measure (\<lambda>n. n)") auto

declare decimal.simps [simp del]

text \<open>
  \<^verbatim>\<open>getViewerId(ws, streamId)\<close>: the position of the connection in the viewer set of
  the stream, or the current time when it is not there (\<open>now\<close> is \<^verbatim>\<open>Date.now()\<close>).
\<close>

definition getViewerId :: "(jsval \<Rightarrow> session option) \<Rightarrow> nat \<Rightarrow> conn \<Rightarrow> jsval \<Rightarrow> string" where
  "getViewerId strs now ws sid =
     (case strs sid of
        Some sess \<Rightarrow>
          (let index = indexOf (viewers sess) ws
           in if index \<ge> 0 then ''viewer-'' @ decimal (nat index)
              else ''viewer-'' @ decimal now)
      | None \<Rightarrow> ''viewer-'' @ decimal now)"

text \<open>
  \<^verbatim>\<open>viewerId.replace('viewer-', '')\<close> removes the first occurrence of the pattern.
\<close>

fun remove_first :: "string \<Rightarrow> string \<Rightarrow> string" where
  "remove_first pat [] = []"
| "remove_first pat (c # cs) =
     (if take (length pat) (c # cs) = pat then drop (length pat) (c # cs)
      else c # remove_first pat cs)"

text \<open>
  \<^verbatim>\<open>parseInt\<close> without a radix: leading white space is skipped, a sign is read, a
  prefix \<^verbatim>\<open>0x\<close> or \<^verbatim>\<open>0X\<close> selects radix 16, and the longest run of digits of the
  radix is the number; with no digit the result is \<^verbatim>\<open>NaN\<close>, here \<open>None\<close>. Strings
  are over code units below 256, of which the white space is 9 to 13, 32 and 160.
\<close>

definition isWhiteSpace :: "char \<Rightarrow> bool" where
  "isWhiteSpace c = ((of_char c :: nat) \<in> {9, 10, 11, 12, 13, 32, 160})"

definition digitValue :: "char \<Rightarrow> nat option" where
  "digitValue c =
     (let n = (of_char c :: nat)
      in if 48 \<le> n \<and> n \<le> 57 then Some (n - 48)
         else if 97 \<le> n \<and> n \<le> 122 then Some (n - 87)
         else if 65 \<le> n \<and> n \<le> 90 then Some (n - 55)
         else None)"

fun digits_of :: "nat \<Rightarrow> string \<Rightarrow> nat list" where
  "digits_of radix [] = []"
| "digits_of radix (c # cs) =
     (case digitValue c of
        None \<Rightarrow> []
      | Some d \<Rightarrow> if d < radix then d # digits_of radix cs else [])"

definition parseInt :: "string \<Rightarrow> int option" where
  "parseInt s =
     (let s1 = dropWhile isWhiteSpace s;
          negative = (take 1 s1 = ''-'');
          s2 = (if take 1 s1 = ''-'' \<or> take 1 s1 = ''+'' then drop 1 s1 else s1);
          hex = (take 2 s2 = ''0x'' \<or> take 2 s2 = ''0X'');
          radix = (if hex then 16 else 10);
          ds = digits_of radix (if hex then drop 2 s2 else s2);
          n = int (foldl (\<lambda>a d. a * radix + d) 0 ds)
      in if ds = [] then None else Some (if negative then - n else n))"

text \<open>
  \<^verbatim>\<open>findViewerById(viewers, viewerId)\<close> for a string: \<^verbatim>\<open>viewerArray[index] || null\<close>.
  An index that is \<^verbatim>\<open>NaN\<close>, negative or beyond the array reads \<^verbatim>\<open>undefined\<close>.
\<close>

definition findViewerById :: "conn list \<Rightarrow> string \<Rightarrow> conn option" where
  "findViewerById vs viewerId =
     (case parseInt (remove_first ''viewer-'' viewerId) of
        None \<Rightarrow> None
      | Some index \<Rightarrow>
          if 0 \<le> index \<and> nat index < length vs then Some (vs ! nat index) else None)"

subsection \<open>The message handler\<close>

text \<open>
  Each case of the \<^verbatim>\<open>switch\<close> is a function of the connection, the message and the
  server state; it returns the new state and the effects in the order they are made.
\<close>

definition join_as_broadcaster :: "conn \<Rightarrow> in_msg \<Rightarrow> server \<Rightarrow> server \<times> effect list" where
  "join_as_broadcaster ws m s =
     (let sid = streamId m;
          sess = (case streams s sid of None \<Rightarrow> new_session | Some x \<Rightarrow> x);
          stream = sess\<lparr>broadcaster := Some ws\<rparr>
      in (s\<lparr>currentStreamId := (currentStreamId s)(ws := sid),
            role := (role s)(ws := Some Broadcaster),
            streams := (streams s)(sid := Some stream)\<rparr>,
          map (\<lambda>viewer. Send viewer BroadcasterAvailable) (viewers stream)))"

definition join_as_viewer :: "conn \<Rightarrow> in_msg \<Rightarrow> server \<Rightarrow> server \<times> effect list" where
  "join_as_viewer ws m s =
     (let sid = streamId m;
          sess = (case streams s sid of None \<Rightarrow> new_session | Some x \<Rightarrow> x);
          stream = sess\<lparr>viewers := set_add ws (viewers sess)\<rparr>
      in (s\<lparr>currentStreamId := (currentStreamId s)(ws := sid),
            role := (role s)(ws := Some Viewer),
            streams := (streams s)(sid := Some stream)\<rparr>,
          if broadcaster stream \<noteq> None then [Send ws BroadcasterAvailable] else []))"

definition request_stream :: "nat \<Rightarrow> conn \<Rightarrow> server \<Rightarrow> server \<times> effect list" where
  "request_stream now ws s =
     (let sid = currentStreamId s ws
      in if truthy sid \<and> streams s sid \<noteq> None then
           (case streams s sid of
              None \<Rightarrow> (s, [])
            | Some stream \<Rightarrow>
                (case broadcaster stream of
                   None \<Rightarrow> (s, [])
                 | Some b \<Rightarrow>
                     if readyStateOf s b = OPEN
                     then (s, [Send b (ViewerRequest (getViewerId (streams s) now ws sid))])
                     else (s, [])))
         else (s, []))"

text \<open>
  The relay of \<^verbatim>\<open>offer\<close>, \<^verbatim>\<open>answer\<close> and \<^verbatim>\<open>ice-candidate\<close>; \<open>ty\<close> is the type of the
  message. A \<^verbatim>\<open>targetViewerId\<close> that is truthy and not a string has no \<^verbatim>\<open>replace\<close>:
  \<^verbatim>\<open>findViewerById\<close> throws a TypeError, before anything is sent.
\<close>

definition relay :: "nat \<Rightarrow> string \<Rightarrow> conn \<Rightarrow> in_msg \<Rightarrow> server \<Rightarrow> (server \<times> effect list) completion" where
  "relay now ty ws m s =
     (let sid = currentStreamId s ws
      in if truthy sid \<and> streams s sid \<noteq> None then
           (case streams s sid of
              None \<Rightarrow> Normal (s, [])
            | Some streamData \<Rightarrow>
                if role s ws = Some Broadcaster then
                  (case (if truthy (targetViewerId m)
                         then (case targetViewerId m of
                                 JStr viewerId \<Rightarrow> Normal (findViewerById (viewers streamData) viewerId)
                               | _ \<Rightarrow> Thrown TypeError None)
                         else Normal None) of
                     Thrown e _ \<Rightarrow> Thrown e (s, [])
                   | Normal (Some targetViewer) \<Rightarrow>
                       Normal (s, [Send targetViewer (Relay ty (data m) None)])
                   | Normal None \<Rightarrow>
                       Normal (s, map (\<lambda>viewer. Send viewer (Relay ty (data m) None))
                                    (filter (\<lambda>viewer. readyStateOf s viewer = OPEN)
                                       (viewers streamData))))
                else if role s ws = Some Viewer then
                  (case broadcaster streamData of
                     None \<Rightarrow> Normal (s, [])
                   | Some b \<Rightarrow>
                       if readyStateOf s b = OPEN
                       then Normal (s, [Send b (Relay ty (data m)
                                          (Some (getViewerId (streams s) now ws sid)))])
                       else Normal (s, []))
                else Normal (s, []))
         else Normal (s, []))"

definition dispatch :: "nat \<Rightarrow> conn \<Rightarrow> in_msg \<Rightarrow> server \<Rightarrow> (server \<times> effect list) completion" where
  "dispatch now ws m s =
     (if mtype m = JStr ''join-as-broadcaster'' then Normal (join_as_broadcaster ws m s)
      else if mtype m = JStr ''join-as-viewer'' then Normal (join_as_viewer ws m s)
      else if mtype m = JStr ''request-stream'' then Normal (request_stream now ws s)
      else if mtype m = JStr ''offer'' then relay now ''offer'' ws m s
      else if mtype m = JStr ''answer'' then relay now ''answer'' ws m s
      else if mtype m = JStr ''ice-candidate'' then relay now ''ice-candidate'' ws m s
      else Normal (s, []))"

text \<open>
  The body of the \<^verbatim>\<open>try\<close>: \<^verbatim>\<open>JSON.parse\<close> throws a SyntaxError on text that is not
  JSON; reading \<^verbatim>\<open>data.streamId\<close> of \<^verbatim>\<open>null\<close> throws a TypeError.
\<close>

fun try_body :: "nat \<Rightarrow> conn \<Rightarrow> raw \<Rightarrow> server \<Rightarrow> (server \<times> effect list) completion" where
  "try_body now ws Unparseable s = Thrown SyntaxError (s, [])"
| "try_body now ws ParsedNull s = Thrown TypeError (s, [])"
| "try_body now ws ParsedOther s = dispatch now ws no_fields s"
| "try_body now ws (ParsedObject m) s = dispatch now ws m s"

text \<open>\<^verbatim>\<open>ws.on('message')\<close>: the \<^verbatim>\<open>catch\<close> logs the error and the handler returns.\<close>

definition on_message :: "nat \<Rightarrow> conn \<Rightarrow> raw \<Rightarrow> server \<Rightarrow> server \<times> effect list" where
  "on_message now ws message s =
     (case try_body now ws message s of
        Normal r \<Rightarrow> r
      | Thrown error (s', effs) \<Rightarrow> (s', effs @ [LogError error]))"

subsection \<open>The close handler\<close>

definition on_close :: "conn \<Rightarrow> server \<Rightarrow> server \<times> effect list" where
  "on_close ws s =
     (let sid = currentStreamId s ws
      in if truthy sid \<and> streams s sid \<noteq> None then
           (case streams s sid of
              None \<Rightarrow> (s, [])
            | Some streamData \<Rightarrow>
                (let (streamData', effs) =
                       (if role s ws = Some Broadcaster then
                          (streamData\<lparr>broadcaster := None\<rparr>,
                           map (\<lambda>viewer. Send viewer BroadcasterLeft)
                             (filter (\<lambda>viewer. readyStateOf s viewer = OPEN)
                                (viewers streamData)))
                        else if role s ws = Some Viewer then
                          (streamData\<lparr>viewers := set_delete ws (viewers streamData)\<rparr>, [])
                        else (streamData, []))
                 in if broadcaster streamData' = None \<and> length (viewers streamData') = 0
                    then (s\<lparr>streams := (streams s)(sid := None)\<rparr>, effs)
                    else (s\<lparr>streams := (streams s)(sid := Some streamData')\<rparr>, effs)))
         else (s, []))"

subsection \<open>The server as a machine\<close>

text \<open>
  The server handles one event at a time: a message on a connection (at the time
  \<open>now\<close>), the close of a connection (the transport has set its \<^verbatim>\<open>readyState\<close> to
  CLOSED when the handler runs), or a change of a connection's \<^verbatim>\<open>readyState\<close> by the
  transport.
\<close>

datatype event = Message nat conn raw | Close conn | ReadyState conn readyState

fun step :: "event \<Rightarrow> server \<Rightarrow> server \<times> effect list" where
  "step (Message now ws message) s = on_message now ws message s"
| "step (Close ws) s = on_close ws (s\<lparr>readyStateOf := (readyStateOf s)(ws := CLOSED)\<rparr>)"
| "step (ReadyState ws r) s = (s\<lparr>readyStateOf := (readyStateOf s)(ws := r)\<rparr>, [])"

fun run :: "event list \<Rightarrow> server \<Rightarrow> server" where
  "run [] s = s"
| "run (e # es) s = run es (fst (step e s))"

text \<open>The two conditions of the session invariant, read off the registry.\<close>

definition present :: "server \<Rightarrow> jsval \<Rightarrow> bool" where
  "present s sid = (streams s sid \<noteq> None)"

definition has_member :: "server \<Rightarrow> jsval \<Rightarrow> bool" where
  "has_member s sid =
     (case streams s sid of
        None \<Rightarrow> False
      | Some sess \<Rightarrow> broadcaster sess \<noteq> None \<or> viewers sess \<noteq> [])"

text \<open>A message is a join when its type is one of the two join types.\<close>

definition join_msg :: "string \<Rightarrow> jsval \<Rightarrow> in_msg" where
  "join_msg ty sid = \<lparr>mtype = JStr ty, streamId = sid, data = None, targetViewerId = JUndefined\<rparr>"

text \<open>
  A message of a connection is against a stream id when it is a join that names the id,
  or any other message while the id is the connection's \<^verbatim>\<open>currentStreamId\<close>.
\<close>

definition against :: "jsval \<Rightarrow> conn \<Rightarrow> raw \<Rightarrow> server \<Rightarrow> bool" where
  "against sid ws message s =
     (case message of
        ParsedObject m \<Rightarrow>
          if mtype m = JStr ''join-as-broadcaster'' \<or> mtype m = JStr ''join-as-viewer''
          then streamId m = sid
          else currentStreamId s ws = sid
      | _ \<Rightarrow> currentStreamId s ws = sid)"




text \<open>
  The scenario of the specification: on a fresh server, connection 1 joins stream
  \<^verbatim>\<open>"abc"\<close> as broadcaster, then connections 2 and 3 join it as viewers.
\<close>

definition abc :: jsval where
  "abc = JStr ''abc''"

definition scenario :: server where
  "scenario =
     run [Message 0 1 (ParsedObject (join_msg ''join-as-broadcaster'' abc)),
          Message 0 2 (ParsedObject (join_msg ''join-as-viewer'' abc)),
          Message 0 3 (ParsedObject (join_msg ''join-as-viewer'' abc))] init"

text \<open>
  The scenario continued: the broadcaster and the first viewer disconnect, and the
  last viewer is alone in the session.
\<close>

definition last_viewer :: server where
  "last_viewer = run [Close 1, Close 2] scenario"

section \<open>Peer connection manager (src/lib/webrtc-stream.ts)\<close>

subsection \<open>The browser's peer connection\<close>

text \<open>
  The \<^verbatim>\<open>WebRTCStreamer\<close> of this file signals over a \<^verbatim>\<open>BroadcastChannel\<close> and drives an
  \<^verbatim>\<open>RTCPeerConnection\<close>. The peer connection is the browser's object; what the model
  keeps of it is its identity, whether it is closed, the tracks added to it, the two
  descriptions, and the remote candidates the browser has accepted.
\<close>

type_synonym sdp = string

type_synonym candidate = string

record track =
  kind :: string
  live :: bool

record pc =
  pc_id :: nat
  pc_closed :: bool
  pc_tracks :: "track list"
  localDescription :: "sdp option"
  remoteDescription :: "sdp option"
  remoteCandidates :: "candidate list"

text \<open>
  The asynchronous operations of the peer connection are the browser's: each either
  rejects with an error or succeeds, and the streamer cannot know which in advance.
  They are an argument of the model. Every handler of the streamer is run to its end
  before the next event; interleavings at its \<^verbatim>\<open>await\<close> points are not modelled.
\<close>

record browser =
  createOffer :: "pc \<Rightarrow> js_error + sdp"
  createAnswer :: "pc \<Rightarrow> js_error + sdp"
  setLocalDescription :: "pc \<Rightarrow> sdp \<Rightarrow> js_error + pc"
  setRemoteDescription :: "pc \<Rightarrow> sdp \<Rightarrow> js_error + pc"
  addIceCandidate :: "pc \<Rightarrow> candidate \<Rightarrow> js_error + pc"

text \<open>
  A browser that follows the W3C API, for the concrete runs below: every operation on a
  closed connection is rejected with InvalidStateError; \<^verbatim>\<open>createAnswer\<close> and
  \<^verbatim>\<open>addIceCandidate\<close> are rejected with InvalidStateError while the remote description
  is \<^verbatim>\<open>null\<close>; otherwise the operation succeeds.
\<close>

definition w3c :: browser where
  "w3c =
     \<lparr>createOffer = (\<lambda>p. if pc_closed p then Inl InvalidStateError else Inr ''offer''),
      createAnswer = (\<lambda>p. if pc_closed p \<or> remoteDescription p = None
                            then Inl InvalidStateError else Inr ''answer''),
      setLocalDescription = (\<lambda>p d. if pc_closed p then Inl InvalidStateError
                                     else Inr (p\<lparr>localDescription := Some d\<rparr>)),
      setRemoteDescription = (\<lambda>p d. if pc_closed p then Inl InvalidStateError
                                      else Inr (p\<lparr>remoteDescription := Some d\<rparr>)),
      addIceCandidate = (\<lambda>p c. if pc_closed p \<or> remoteDescription p = None
                                 then Inl InvalidStateError
                                 else Inr (p\<lparr>remoteCandidates := remoteCandidates p @ [c]\<rparr>))\<rparr>"

text \<open>The same browser, but one that cannot apply the remote description it is given.\<close>

definition rejecting_remote :: browser where
  "rejecting_remote = w3c\<lparr>setRemoteDescription := (\<lambda>p d. Inl OperationError)\<rparr>"

subsection \<open>The streamer\<close>

text \<open>The messages of the signaling channel, \<^verbatim>\<open>{type, data}\<close>.\<close>

datatype signal =
    RequestStream
  | Offer sdp
  | Answer sdp
  | IceCandidate candidate
  | OtherSignal string

text \<open>
  What the streamer does that can be seen from outside: a call of an operation of a
  peer connection (named by its identity), a message posted on the channel, and a
  \<^verbatim>\<open>console.error\<close>.
\<close>

datatype pc_op =
    CreateOffer
  | CreateAnswer
  | SetLocalDescription sdp
  | SetRemoteDescription sdp
  | AddIceCandidate candidate
  | AddTrack track
  | ClosePc

datatype logged =
    NoTracksInStream
  | NoActiveTracks
  | NoPeerConnectionForOffer
  | NoPeerConnectionForAnswer
  | NoPeerConnectionForIceCandidate
  | ErrorHandlingOffer js_error
  | ErrorHandlingAnswer js_error
  | ErrorAddingIceCandidate js_error

datatype action = Call nat pc_op | PostMessage signal | ConsoleError logged

text \<open>
  The fields of the class. \<^verbatim>\<open>onStreamCallback\<close> and \<^verbatim>\<open>onViewerRequest\<close> are closures
  over \<^verbatim>\<open>this\<close>; the model keeps whether each is set. \<open>created\<close> counts the peer
  connections constructed so far and gives each its identity; \<open>channelClosed\<close> is
  whether \<^verbatim>\<open>signalingChannel.close()\<close> has been called; \<open>trace\<close> is what has been done.
\<close>

record streamer =
  peerConnection :: "pc option"
  onStreamCallback :: bool
  onViewerRequest :: bool
  localStream :: "track list option"
  channelClosed :: bool
  created :: nat
  trace :: "action list"

definition new_streamer :: streamer where
  "new_streamer =
     \<lparr>peerConnection = None, onStreamCallback = False, onViewerRequest = False,
      localStream = None, channelClosed = False, created = 0, trace = []\<rparr>"

definition did :: "action list \<Rightarrow> streamer \<Rightarrow> streamer" where
  "did as s = s\<lparr>trace := trace s @ as\<rparr>"

text \<open>\<^verbatim>\<open>postMessage\<close> on a channel that has been closed throws InvalidStateError.\<close>

definition postMessage :: "signal \<Rightarrow> streamer \<Rightarrow> js_error + streamer" where
  "postMessage m s =
     (if channelClosed s then Inl InvalidStateError else Inr (did [PostMessage m] s))"

definition createPeerConnection :: "streamer \<Rightarrow> pc \<times> streamer" where
  "createPeerConnection s =
     (let p = \<lparr>pc_id = created s, pc_closed = False, pc_tracks = [],
                localDescription = None, remoteDescription = None, remoteCandidates = []\<rparr>
      in (p, s\<lparr>peerConnection := Some p, created := created s + 1\<rparr>))"

text \<open>
  \<^verbatim>\<open>handleOffer\<close>: without a peer connection the offer is logged and dropped. Otherwise
  the \<^verbatim>\<open>try\<close> block sets the remote description, creates the answer, sets it as local
  description and posts it; the \<^verbatim>\<open>catch\<close> logs whatever was thrown, and the function
  returns normally.
\<close>

definition handleOffer :: "browser \<Rightarrow> streamer \<Rightarrow> sdp \<Rightarrow> streamer outcome" where
  "handleOffer b s offer =
     (case peerConnection s of
        None \<Rightarrow> Resolved (did [ConsoleError NoPeerConnectionForOffer] s)
      | Some p \<Rightarrow>
          (let s1 = did [Call (pc_id p) (SetRemoteDescription offer)] s
           in case setRemoteDescription b p offer of
                Inl e \<Rightarrow> Resolved (did [ConsoleError (ErrorHandlingOffer e)] s1)
              | Inr p1 \<Rightarrow>
                  (let s2 = did [Call (pc_id p) CreateAnswer] (s1\<lparr>peerConnection := Some p1\<rparr>)
                   in case createAnswer b p1 of
                        Inl e \<Rightarrow> Resolved (did [ConsoleError (ErrorHandlingOffer e)] s2)
                      | Inr answer \<Rightarrow>
                          (let s3 = did [Call (pc_id p) (SetLocalDescription answer)] s2
                           in case setLocalDescription b p1 answer of
                                Inl e \<Rightarrow> Resolved (did [ConsoleError (ErrorHandlingOffer e)] s3)
                              | Inr p2 \<Rightarrow>
                                  (case postMessage (Answer answer) (s3\<lparr>peerConnection := Some p2\<rparr>) of
                                     Inl e \<Rightarrow>
                                       Resolved (did [ConsoleError (ErrorHandlingOffer e)]
                                                   (s3\<lparr>peerConnection := Some p2\<rparr>))
                                   | Inr s4 \<Rightarrow> Resolved s4)))))"

definition handleAnswer :: "browser \<Rightarrow> streamer \<Rightarrow> sdp \<Rightarrow> streamer outcome" where
  "handleAnswer b s answer =
     (case peerConnection s of
        None \<Rightarrow> Resolved (did [ConsoleError NoPeerConnectionForAnswer] s)
      | Some p \<Rightarrow>
          (let s1 = did [Call (pc_id p) (SetRemoteDescription answer)] s
           in case setRemoteDescription b p answer of
                Inl e \<Rightarrow> Resolved (did [ConsoleError (ErrorHandlingAnswer e)] s1)
              | Inr p1 \<Rightarrow> Resolved (s1\<lparr>peerConnection := Some p1\<rparr>)))"

text \<open>
  \<^verbatim>\<open>handleIceCandidate\<close> hands the candidate to \<^verbatim>\<open>addIceCandidate\<close> at once; there is
  no queue in the class. A rejection is logged by the \<^verbatim>\<open>catch\<close>.
\<close>

definition handleIceCandidate :: "browser \<Rightarrow> streamer \<Rightarrow> candidate \<Rightarrow> streamer outcome" where
  "handleIceCandidate b s c =
     (case peerConnection s of
        None \<Rightarrow> Resolved (did [ConsoleError NoPeerConnectionForIceCandidate] s)
      | Some p \<Rightarrow>
          (let s1 = did [Call (pc_id p) (AddIceCandidate c)] s
           in case addIceCandidate b p c of
                Inl e \<Rightarrow> Resolved (did [ConsoleError (ErrorAddingIceCandidate e)] s1)
              | Inr p1 \<Rightarrow> Resolved (s1\<lparr>peerConnection := Some p1\<rparr>)))"

text \<open>
  The handler that \<^verbatim>\<open>startBroadcast\<close> installs as \<^verbatim>\<open>onViewerRequest\<close>. It has no
  \<^verbatim>\<open>try\<close>: a rejection of \<^verbatim>\<open>createOffer\<close> or \<^verbatim>\<open>setLocalDescription\<close> rejects the
  handler, after the new peer connection has been stored.
\<close>

definition viewerRequest :: "browser \<Rightarrow> streamer \<Rightarrow> streamer outcome" where
  "viewerRequest b s =
     (case localStream s of
        None \<Rightarrow> Rejected TypeError s
      | Some tracks \<Rightarrow>
          if length (filter live tracks) = 0
          then Resolved (did [ConsoleError NoActiveTracks] s)
          else
            (let s1 = (case peerConnection s of
                         None \<Rightarrow> s
                       | Some old \<Rightarrow> did [Call (pc_id old) ClosePc] s);
                 (p, s2) = createPeerConnection s1;
                 p1 = p\<lparr>pc_tracks := tracks\<rparr>;
                 s3 = did (map (\<lambda>t. Call (pc_id p) (AddTrack t)) tracks @ [Call (pc_id p) CreateOffer])
                        (s2\<lparr>peerConnection := Some p1\<rparr>)
             in case createOffer b p1 of
                  Inl e \<Rightarrow> Rejected e s3
                | Inr offer \<Rightarrow>
                    (let s4 = did [Call (pc_id p) (SetLocalDescription offer)] s3
                     in case setLocalDescription b p1 offer of
                          Inl e \<Rightarrow> Rejected e s4
                        | Inr p2 \<Rightarrow>
                            (case postMessage (Offer offer) (s4\<lparr>peerConnection := Some p2\<rparr>) of
                               Inl e \<Rightarrow> Rejected e (s4\<lparr>peerConnection := Some p2\<rparr>)
                             | Inr s5 \<Rightarrow> Resolved s5))))"

text \<open>
  \<^verbatim>\<open>signalingChannel.onmessage\<close>, set by the constructor: a \<^verbatim>\<open>request-stream\<close> goes to
  \<^verbatim>\<open>onViewerRequest\<close> when it is set; any other message is ignored without a peer
  connection, and otherwise handled by its type.
\<close>

definition onmessage :: "browser \<Rightarrow> streamer \<Rightarrow> signal \<Rightarrow> streamer outcome" where
  "onmessage b s m =
     (if m = RequestStream then
        (if onViewerRequest s then viewerRequest b s else Resolved s)
      else if peerConnection s = None then Resolved s
      else
        (case m of
           Offer offer \<Rightarrow> handleOffer b s offer
         | Answer answer \<Rightarrow> handleAnswer b s answer
         | IceCandidate c \<Rightarrow> handleIceCandidate b s c
         | _ \<Rightarrow> Resolved s))"

text \<open>
  A message that another context posts on the channel reaches \<^verbatim>\<open>onmessage\<close> as long
  as the channel has not been closed; a closed \<^verbatim>\<open>BroadcastChannel\<close> receives nothing.
\<close>

definition deliver :: "browser \<Rightarrow> streamer \<Rightarrow> signal \<Rightarrow> streamer outcome" where
  "deliver b s m = (if channelClosed s then Resolved s else onmessage b s m)"

fun deliver_all :: "browser \<Rightarrow> streamer \<Rightarrow> signal list \<Rightarrow> streamer" where
  "deliver_all b s [] = s"
| "deliver_all b s (m # ms) = deliver_all b (state_of (deliver b s m)) ms"

definition startBroadcast :: "streamer \<Rightarrow> track list \<Rightarrow> streamer outcome" where
  "startBroadcast s stream =
     (let s1 = s\<lparr>localStream := Some stream\<rparr>
      in if length stream = 0 then Resolved (did [ConsoleError NoTracksInStream] s1)
         else Resolved (s1\<lparr>onViewerRequest := True\<rparr>))"

definition startViewing :: "streamer \<Rightarrow> streamer outcome" where
  "startViewing s =
     (let (p, s1) = createPeerConnection (s\<lparr>onStreamCallback := True\<rparr>)
      in case postMessage RequestStream s1 of
           Inl e \<Rightarrow> Rejected e s1
         | Inr s2 \<Rightarrow> Resolved s2)"

definition stopBroadcast :: "streamer \<Rightarrow> streamer" where
  "stopBroadcast s =
     (case peerConnection s of
        None \<Rightarrow> s
      | Some p \<Rightarrow> (did [Call (pc_id p) ClosePc] s)\<lparr>peerConnection := None\<rparr>)"

definition close :: "streamer \<Rightarrow> streamer" where
  "close s = (stopBroadcast s)\<lparr>channelClosed := True\<rparr>"

text \<open>
  Concrete streamers for the runs below: a viewer that has started viewing, and a
  broadcaster that has started a broadcast of a camera and a microphone and has served
  one viewer request.
\<close>

definition viewing :: streamer where
  "viewing = state_of (startViewing new_streamer)"

definition camera :: "track list" where
  "camera = [\<lparr>kind = ''video'', live = True\<rparr>, \<lparr>kind = ''audio'', live = True\<rparr>]"

definition broadcasting :: streamer where
  "broadcasting =
     state_of (deliver w3c (state_of (startBroadcast new_streamer camera)) RequestStream)"

section \<open>Reconnection\<close>

subsection \<open>The session coordinator (the WebSocket \<^verbatim>\<open>WebRTCStreamer\<close>, in src/lib/bonding-curves.ts)\<close>

text \<open>
  The second \<^verbatim>\<open>WebRTCStreamer\<close> class of the repository signals over a WebSocket and
  reconnects. Of its fields, the reconnection reads and writes \<^verbatim>\<open>reconnectAttempts\<close>,
  \<^verbatim>\<open>role\<close> (here \<open>ws_role\<close>), whether \<^verbatim>\<open>localStream\<close> is set, the socket, and the
  timer of \<^verbatim>\<open>reconnectTimeout\<close>: \<open>Some d\<close> is a timer that is pending with delay \<open>d\<close>
  milliseconds. \<open>history\<close> records what the class does that can be seen from outside:
  the timers it sets, the join messages it sends and its \<^verbatim>\<open>console.error\<close> lines. The
  class has no callback or event for a failure; the two log lines are all it emits.
\<close>

datatype wire = JoinAsBroadcaster | JoinAsViewer

datatype noted = Scheduled nat | Sent wire | WebSocketError | ReconnectFailed

record coordinator =
  reconnectAttempts :: nat
  ws_role :: "role option"
  hasLocalStream :: bool
  socketOpen :: bool
  reconnectTimeout :: "nat option"
  history :: "noted list"

definition maxReconnectAttempts :: nat where
  "maxReconnectAttempts = 5"

definition handleDisconnect :: "coordinator \<Rightarrow> coordinator" where
  "handleDisconnect c =
     (if reconnectAttempts c < maxReconnectAttempts \<and> ws_role c \<noteq> None then
        c\<lparr>reconnectAttempts := reconnectAttempts c + 1,
          reconnectTimeout := Some (2000 * (reconnectAttempts c + 1)),
          history := history c @ [Scheduled (2000 * (reconnectAttempts c + 1))]\<rparr>
      else c)"

text \<open>\<^verbatim>\<open>ws.onclose\<close>: the socket is closed when the handler runs.\<close>

definition onclose :: "coordinator \<Rightarrow> coordinator" where
  "onclose c = handleDisconnect (c\<lparr>socketOpen := False\<rparr>)"

text \<open>
  \<^verbatim>\<open>sendMessage\<close> of a join, as the timer callback calls it after a reconnect: it sends
  when the socket is open.
\<close>

definition rejoin :: "coordinator \<Rightarrow> coordinator" where
  "rejoin c =
     (if ws_role c = Some Broadcaster \<and> hasLocalStream c then
        (if socketOpen c then c\<lparr>history := history c @ [Sent JoinAsBroadcaster]\<rparr> else c)
      else if ws_role c = Some Viewer then
        (if socketOpen c then c\<lparr>history := history c @ [Sent JoinAsViewer]\<rparr> else c)
      else c)"

text \<open>
  The pending reconnect timer fires and \<^verbatim>\<open>connectWebSocket\<close> runs. Either the new
  socket opens (\<^verbatim>\<open>onopen\<close> resets the attempts, the callback re-joins), or it fails:
  \<^verbatim>\<open>onerror\<close> logs and rejects, the \<^verbatim>\<open>catch\<close> of the callback logs, and the \<^verbatim>\<open>close\<close>
  event of the failed socket calls \<^verbatim>\<open>handleDisconnect\<close> again. Without a pending
  timer nothing fires.
\<close>

definition timer_fires :: "bool \<Rightarrow> coordinator \<Rightarrow> coordinator" where
  "timer_fires opens c =
     (case reconnectTimeout c of
        None \<Rightarrow> c
      | Some d \<Rightarrow>
          (let c1 = c\<lparr>reconnectTimeout := None\<rparr>
           in if opens then rejoin (c1\<lparr>reconnectAttempts := 0, socketOpen := True\<rparr>)
              else onclose (c1\<lparr>history := history c1 @ [WebSocketError, ReconnectFailed]\<rparr>)))"

text \<open>A connection loss followed by \<open>n\<close> timer firings that all fail to connect.\<close>

primrec failures :: "nat \<Rightarrow> coordinator \<Rightarrow> coordinator" where
  "failures 0 c = c"
| "failures (Suc n) c = failures n (timer_fires False c)"

fun delays :: "noted list \<Rightarrow> nat list" where
  "delays [] = []"
| "delays (Scheduled d # xs) = d # delays xs"
| "delays (x # xs) = delays xs"

text \<open>A viewer that is connected, before any loss.\<close>

definition connected_viewer :: coordinator where
  "connected_viewer =
     \<lparr>reconnectAttempts = 0, ws_role = Some Viewer, hasLocalStream = False,
      socketOpen = True, reconnectTimeout = None, history = []\<rparr>"

subsection \<open>The retry loop of the stream player (src/unnamed/part_006)\<close>

text \<open>
  The effect of \<^verbatim>\<open>StreamPlayer\<close> that runs while the stream is live keeps
  \<^verbatim>\<open>retryCount\<close>, \<^verbatim>\<open>connected\<close> and \<^verbatim>\<open>retryTimeout\<close> (a pending timer with its delay),
  and the component shows \<^verbatim>\<open>connectionStatus\<close>. \<open>attempts\<close> records each
  \<^verbatim>\<open>startViewing\<close> with the delay of the retry timer set after it.
\<close>

datatype status = StatusConnected | StatusBuffering | StatusDisconnected

record player =
  retryCount :: nat
  connected :: bool
  retryTimeout :: "nat option"
  connectionStatus :: status
  attempts :: "nat list"

definition maxRetries :: nat where
  "maxRetries = 10"

definition connectToStream :: "player \<Rightarrow> player" where
  "connectToStream p =
     (if connected p then p
      else p\<lparr>retryTimeout := Some 3000, attempts := attempts p @ [3000]\<rparr>)"

text \<open>The callback of the retry timer; without a pending timer nothing fires.\<close>

definition retry_fires :: "player \<Rightarrow> player" where
  "retry_fires p =
     (case retryTimeout p of
        None \<Rightarrow> p
      | Some d \<Rightarrow>
          (let p1 = p\<lparr>retryTimeout := None\<rparr>
           in if \<not> connected p1 \<and> retryCount p1 < maxRetries
              then connectToStream (p1\<lparr>retryCount := retryCount p1 + 1\<rparr>)
              else p1))"

text \<open>
  The effect starts when the stream is live: the status is set to buffering, the
  counters are fresh and \<^verbatim>\<open>connectToStream\<close> is called.
\<close>

definition start_player :: player where
  "start_player =
     connectToStream \<lparr>retryCount = 0, connected = False, retryTimeout = None,
                      connectionStatus = StatusBuffering, attempts = []\<rparr>"

primrec retries :: "nat \<Rightarrow> player \<Rightarrow> player" where
  "retries 0 p = p"
| "retries (Suc n) p = retries n (retry_fires p)"

section \<open>Adaptive bitrate controller (src/lib/streaming/webrtc-manager.ts)\<close>








section \<open>Properties of the signaling server\<close>


lemma fst_request_stream: "fst (request_stream now ws s) = s"
  by (simp add: request_stream_def Let_def split: option.splits)

lemma relay_keeps_state:
  "relay now ty ws m s = Normal r \<Longrightarrow> fst r = s"
  by (auto simp: relay_def Let_def split: option.splits if_splits jsval.splits completion.splits)

lemma relay_thrown:
  "relay now ty ws m s = Thrown e r \<Longrightarrow> r = (s, [])"
  by (auto simp: relay_def Let_def split: option.splits if_splits jsval.splits completion.splits)

lemma has_member_join_as_broadcaster:
  "has_member (fst (join_as_broadcaster ws m s)) sid =
     (sid = streamId m \<or> has_member s sid)"
  by (simp add: join_as_broadcaster_def has_member_def Let_def)

lemma present_join_as_broadcaster:
  "present (fst (join_as_broadcaster ws m s)) sid = (sid = streamId m \<or> present s sid)"
  by (simp add: join_as_broadcaster_def present_def Let_def)

lemma set_add_nonempty: "set_add x xs \<noteq> []"
  by (auto simp: set_add_def)

lemma has_member_join_as_viewer:
  "has_member (fst (join_as_viewer ws m s)) sid =
     (sid = streamId m \<or> has_member s sid)"
  by (simp add: join_as_viewer_def has_member_def Let_def set_add_nonempty)

lemma present_join_as_viewer:
  "present (fst (join_as_viewer ws m s)) sid = (sid = streamId m \<or> present s sid)"
  by (simp add: join_as_viewer_def present_def Let_def)

lemma dispatch_inv:
  assumes "\<And>sid. present s sid \<Longrightarrow> has_member s sid"
      and "dispatch now ws m s = Normal r"
      and "present (fst r) sid"
  shows "has_member (fst r) sid"
  using assms
  by (auto simp: dispatch_def has_member_join_as_broadcaster present_join_as_broadcaster
        has_member_join_as_viewer present_join_as_viewer fst_request_stream
      dest: relay_keeps_state split: if_splits)

lemma dispatch_thrown: "dispatch now ws m s = Thrown e r \<Longrightarrow> r = (s, [])"
  by (auto simp: dispatch_def dest: relay_thrown split: if_splits)

lemma try_body_thrown: "try_body now ws message s = Thrown e r \<Longrightarrow> r = (s, [])"
  by (cases message) (auto dest: dispatch_thrown)

lemma on_message_inv:
  assumes inv: "\<And>sid. present s sid \<Longrightarrow> has_member s sid"
      and p: "present (fst (on_message now ws message s)) sid"
  shows "has_member (fst (on_message now ws message s)) sid"
proof (cases "try_body now ws message s")
  case (Normal r)
  then have d: "message = ParsedOther \<and> dispatch now ws no_fields s = Normal r
              \<or> (\<exists>m. message = ParsedObject m \<and> dispatch now ws m s = Normal r)"
    by (cases message) auto
  from Normal have eq: "on_message now ws message s = r"
    by (simp add: on_message_def)
  from d show ?thesis
    using dispatch_inv [OF inv] p unfolding eq by blast
next
  case (Thrown e r)
  then have "r = (s, [])" by (rule try_body_thrown)
  with Thrown have "fst (on_message now ws message s) = s"
    by (simp add: on_message_def)
  with inv p show ?thesis by simp
qed

lemma on_close_inv:
  assumes inv: "\<And>sid. present s sid \<Longrightarrow> has_member s sid"
      and p: "present (fst (on_close ws s)) sid"
  shows "has_member (fst (on_close ws s)) sid"
  using p inv [of sid]
  by (auto simp: on_close_def Let_def present_def has_member_def
      split: option.splits if_splits prod.splits)

lemma step_inv:
  assumes inv: "\<And>sid. present s sid \<Longrightarrow> has_member s sid"
      and p: "present (fst (step e s)) sid"
  shows "has_member (fst (step e s)) sid"
proof (cases e)
  case (Message now ws message)
  with on_message_inv [OF inv] p show ?thesis by simp
next
  case (Close ws)
  let ?s = "s\<lparr>readyStateOf := (readyStateOf s)(ws := CLOSED)\<rparr>"
  have "\<And>sid. present ?s sid \<Longrightarrow> has_member ?s sid"
    using inv by (simp add: present_def has_member_def)
  from on_close_inv [OF this] p Close show ?thesis by simp
next
  case (ReadyState ws r)
  with inv [of sid] p show ?thesis by (simp add: present_def has_member_def)
qed

lemma run_inv:
  "(\<And>sid. present s sid \<Longrightarrow> has_member s sid) \<Longrightarrow> present (run es s) sid \<Longrightarrow>
   has_member (run es s) sid"
proof (induction es arbitrary: s)
  case Nil
  then show ?case by simp
next
  case (Cons e es)
  show ?case
    using Cons.IH [of "fst (step e s)"] step_inv [of s e] Cons.prems by simp
qed

lemma has_member_present: "has_member s sid \<Longrightarrow> present s sid"
  by (auto simp: has_member_def present_def split: option.splits)

lemma reachable_inv: "present (run es init) sid = has_member (run es init) sid"
proof -
  have "\<And>sid. present init sid \<Longrightarrow> has_member init sid"
    by (simp add: present_def init_def)
  from run_inv [OF this] has_member_present show ?thesis by blast
qed

lemma indexOf_ge: "- 1 \<le> indexOf xs x"
  by (induction xs) (auto simp: Let_def)











lemmas server_defs =
  scenario_def abc_def init_def join_msg_def on_message_def dispatch_def
  join_as_broadcaster_def join_as_viewer_def request_stream_def relay_def on_close_def
  new_session_def set_add_def set_delete_def Let_def

lemma scenario_value:
  "scenario = \<lparr>streams = (\<lambda>_. None)(JStr ''abc'' := Some \<lparr>broadcaster = Some 1, viewers = [2, 3]\<rparr>),
      currentStreamId = (\<lambda>_. JNull)(1 := JStr ''abc'', 2 := JStr ''abc'', 3 := JStr ''abc''),
      role = (\<lambda>_. None)(1 := Some Broadcaster, 2 := Some Viewer, 3 := Some Viewer),
      readyStateOf = (\<lambda>_. OPEN)\<rparr>"
  by (simp add: server_defs)








lemma on_close_streams:
  assumes "truthy (currentStreamId s ws)" "streams s (currentStreamId s ws) = Some sd"
  shows "streams (fst (on_close ws s)) =
        (streams s)(currentStreamId s ws :=
           (let sd' = (if role s ws = Some Broadcaster then sd\<lparr>broadcaster := None\<rparr>
                       else if role s ws = Some Viewer
                            then sd\<lparr>viewers := set_delete ws (viewers sd)\<rparr>
                       else sd)
            in if broadcaster sd' = None \<and> viewers sd' = [] then None else Some sd'))"
  using assms by (simp add: on_close_def Let_def)

lemma absent_same:
  assumes "streams s1 sid = None" "streams s2 sid = None"
          "currentStreamId s1 ws = currentStreamId s2 ws" "against sid ws message s1"
  shows "snd (on_message now ws message s1) = snd (on_message now ws message s2) \<and>
         streams (fst (on_message now ws message s1)) sid =
         streams (fst (on_message now ws message s2)) sid"
proof (cases message)
  case Unparseable
  with assms show ?thesis by (simp add: on_message_def)
next
  case ParsedNull
  with assms show ?thesis by (simp add: on_message_def)
next
  case ParsedOther
  with assms show ?thesis by (simp add: on_message_def dispatch_def no_fields_def)
next
  case (ParsedObject m)
  with assms show ?thesis
    by (auto simp: on_message_def dispatch_def against_def join_as_broadcaster_def
          join_as_viewer_def request_stream_def relay_def Let_def new_session_def
        split: if_splits)
qed

text \<open>
  Claim C4. After any sequence of events on a fresh server, a stream id is present in
  the registry if and only if its session has a broadcaster or at least one viewer. A
  join for an absent id creates the session with the joining connection in it. The
  close of a connection whose stream has a session clears the broadcaster field (for a
  broadcaster) or removes the connection from the viewer set (for a viewer), and the
  session is then deleted exactly when it has no broadcaster and no viewer; no other
  session is touched. Once an id is absent, whether deleted or never created, a
  message against it has the same effects and leaves the same session for it.
\<close>

theorem session_lifecycle:
  "(present (run es init) sid \<longleftrightarrow> has_member (run es init) sid) \<and>
   (streams s sid = None \<longrightarrow>
      streams (fst (on_message now ws (ParsedObject (join_msg ''join-as-broadcaster'' sid)) s)) sid =
        Some \<lparr>broadcaster = Some ws, viewers = []\<rparr> \<and>
      streams (fst (on_message now ws (ParsedObject (join_msg ''join-as-viewer'' sid)) s)) sid =
        Some \<lparr>broadcaster = None, viewers = [ws]\<rparr>) \<and>
   (truthy (currentStreamId s ws) \<and> streams s (currentStreamId s ws) = Some sd \<longrightarrow>
      streams (fst (on_close ws s)) =
        (streams s)(currentStreamId s ws :=
           (let sd' = (if role s ws = Some Broadcaster then sd\<lparr>broadcaster := None\<rparr>
                       else if role s ws = Some Viewer
                            then sd\<lparr>viewers := set_delete ws (viewers sd)\<rparr>
                       else sd)
            in if broadcaster sd' = None \<and> viewers sd' = [] then None else Some sd'))) \<and>
   (streams s1 sid = None \<and> streams s2 sid = None \<and>
    currentStreamId s1 ws = currentStreamId s2 ws \<and> against sid ws message s1 \<longrightarrow>
      snd (on_message now ws message s1) = snd (on_message now ws message s2) \<and>
      streams (fst (on_message now ws message s1)) sid =
      streams (fst (on_message now ws message s2)) sid)"
proof (intro conjI impI)
  show "present (run es init) sid \<longleftrightarrow> has_member (run es init) sid"
    by (rule reachable_inv)
next
  assume "streams s sid = None"
  then show "streams (fst (on_message now ws (ParsedObject (join_msg ''join-as-broadcaster'' sid)) s)) sid =
        Some \<lparr>broadcaster = Some ws, viewers = []\<rparr>"
    by (simp add: on_message_def dispatch_def join_msg_def join_as_broadcaster_def Let_def
          new_session_def)
next
  assume "streams s sid = None"
  then show "streams (fst (on_message now ws (ParsedObject (join_msg ''join-as-viewer'' sid)) s)) sid =
        Some \<lparr>broadcaster = None, viewers = [ws]\<rparr>"
    by (simp add: on_message_def dispatch_def join_msg_def join_as_viewer_def Let_def
          new_session_def set_add_def)
next
  assume "truthy (currentStreamId s ws) \<and> streams s (currentStreamId s ws) = Some sd"
  then show "streams (fst (on_close ws s)) =
        (streams s)(currentStreamId s ws :=
           (let sd' = (if role s ws = Some Broadcaster then sd\<lparr>broadcaster := None\<rparr>
                       else if role s ws = Some Viewer
                            then sd\<lparr>viewers := set_delete ws (viewers sd)\<rparr>
                       else sd)
            in if broadcaster sd' = None \<and> viewers sd' = [] then None else Some sd'))"
    using on_close_streams by blast
next
  assume a: "streams s1 sid = None \<and> streams s2 sid = None \<and>
    currentStreamId s1 ws = currentStreamId s2 ws \<and> against sid ws message s1"
  then show "snd (on_message now ws message s1) = snd (on_message now ws message s2)"
    using absent_same by blast
  from a show "streams (fst (on_message now ws message s1)) sid =
      streams (fst (on_message now ws message s2)) sid"
    using absent_same by blast
qed

lemma on_message_no_close:
  "CloseSocket c \<notin> set (snd (on_message now ws message s))"
proof (cases "try_body now ws message s")
  case (Thrown e r)
  then have "r = (s, [])" by (rule try_body_thrown)
  with Thrown show ?thesis by (simp add: on_message_def)
next
  case (Normal r)
  then have eq: "on_message now ws message s = r" by (simp add: on_message_def)
  from Normal obtain m where d: "dispatch now ws m s = Normal r"
    by (cases message) auto
  from d show ?thesis unfolding eq
    by (auto simp: dispatch_def join_as_broadcaster_def join_as_viewer_def request_stream_def
          relay_def Let_def
        split: if_splits option.splits jsval.splits completion.splits)
qed

lemma on_message_readyState:
  "readyStateOf (fst (on_message now ws message s)) = readyStateOf s"
proof (cases "try_body now ws message s")
  case (Thrown e r)
  then have "r = (s, [])" by (rule try_body_thrown)
  with Thrown show ?thesis by (simp add: on_message_def)
next
  case (Normal r)
  then have eq: "on_message now ws message s = r" by (simp add: on_message_def)
  from Normal obtain m where d: "dispatch now ws m s = Normal r"
    by (cases message) auto
  from d show ?thesis unfolding eq
    by (auto simp: dispatch_def join_as_broadcaster_def join_as_viewer_def fst_request_stream
          Let_def
        dest: relay_keeps_state split: if_splits)
qed

text \<open>
  Claim C7. When the processing of a message throws (text that is not JSON, the JSON
  value \<^verbatim>\<open>null\<close>, a \<^verbatim>\<open>targetViewerId\<close> without \<^verbatim>\<open>replace\<close>), the error is logged,
  nothing has been sent and the server state is as before the message. No message
  whatever makes the server close a connection or change a connection's
  \<^verbatim>\<open>readyState\<close>.
\<close>

theorem malformed_payload_discarded:
  "(try_body now ws message s = Thrown e r \<longrightarrow>
      on_message now ws message s = (s, [LogError e])) \<and>
   try_body now ws Unparseable s = Thrown SyntaxError (s, []) \<and>
   try_body now ws ParsedNull s = Thrown TypeError (s, []) \<and>
   (\<forall>c. CloseSocket c \<notin> set (snd (on_message now ws message s))) \<and>
   readyStateOf (fst (on_message now ws message s)) = readyStateOf s"
proof (intro conjI impI allI)
  assume t: "try_body now ws message s = Thrown e r"
  then have "r = (s, [])" by (rule try_body_thrown)
  with t show "on_message now ws message s = (s, [LogError e])"
    by (simp add: on_message_def)
qed (simp_all add: on_message_no_close on_message_readyState)

lemma last_viewer_value:
  "last_viewer = \<lparr>streams = (\<lambda>_. None)(JStr ''abc'' := Some \<lparr>broadcaster = None, viewers = [3]\<rparr>),
      currentStreamId = (\<lambda>_. JNull)(1 := JStr ''abc'', 2 := JStr ''abc'', 3 := JStr ''abc''),
      role = (\<lambda>_. None)(1 := Some Broadcaster, 2 := Some Viewer, 3 := Some Viewer),
      readyStateOf = (\<lambda>_. OPEN)(1 := CLOSED, 2 := CLOSED)\<rparr>"
  by (simp add: last_viewer_def scenario_value on_close_def set_delete_def Let_def)

text \<open>
  The scenarios of the specification: after the broadcaster and one viewer disconnect,
  the session is still there with its last viewer; when the last viewer disconnects,
  the session is deleted; a viewer that joins afterwards is treated as on a fresh
  server.
\<close>

theorem session_lifecycle_witness:
  "has_member (run [Close 1, Close 2] scenario) abc \<and>
   streams init abc = None \<and>
   streams (fst (on_message 0 1 (ParsedObject (join_msg ''join-as-broadcaster'' abc)) init)) abc =
     Some \<lparr>broadcaster = Some 1, viewers = []\<rparr> \<and>
   streams last_viewer abc = Some \<lparr>broadcaster = None, viewers = [3]\<rparr> \<and>
   streams (fst (on_close 3 last_viewer)) abc = None \<and>
   snd (on_message 0 4 (ParsedObject (join_msg ''join-as-viewer'' abc)) (fst (on_close 3 last_viewer))) =
   snd (on_message 0 4 (ParsedObject (join_msg ''join-as-viewer'' abc)) init)"
proof -
  let ?es = "[Message 0 1 (ParsedObject (join_msg ''join-as-broadcaster'' abc)),
          Message 0 2 (ParsedObject (join_msg ''join-as-viewer'' abc)),
          Message 0 3 (ParsedObject (join_msg ''join-as-viewer'' abc)), Close 1, Close 2]"
  have r: "run ?es init = last_viewer"
    by (simp add: last_viewer_def scenario_def)
  have lv: "run [Close 1, Close 2] scenario = last_viewer"
    by (simp add: last_viewer_def)
  have p: "present last_viewer abc"
    by (simp add: present_def last_viewer_value abc_def)
  have i: "streams init abc = None"
    by (simp add: init_def)
  have cur: "currentStreamId last_viewer 3 = abc" "role last_viewer 3 = Some Viewer"
    by (simp_all add: last_viewer_value abc_def)
  have sd: "streams last_viewer abc = Some \<lparr>broadcaster = None, viewers = [3]\<rparr>"
    by (simp add: last_viewer_value abc_def)
  have t: "truthy abc"
    by (simp add: abc_def)
  have a: "has_member last_viewer abc"
    using session_lifecycle [of ?es abc] p unfolding r by simp
  have b: "streams (fst (on_message 0 1 (ParsedObject (join_msg ''join-as-broadcaster'' abc)) init)) abc =
     Some \<lparr>broadcaster = Some 1, viewers = []\<rparr>"
    using session_lifecycle [where s = init and sid = abc and now = 0 and ws = 1] i by simp
  have c: "streams (fst (on_close 3 last_viewer)) abc = None"
    using session_lifecycle [where s = last_viewer and ws = 3
        and sd = "\<lparr>broadcaster = None, viewers = [3]\<rparr>"] cur sd t
    by (simp add: set_delete_def)
  have ag: "against abc 4 (ParsedObject (join_msg ''join-as-viewer'' abc)) (fst (on_close 3 last_viewer))"
    by (simp add: against_def join_msg_def)
  have cs: "currentStreamId (fst (on_close 3 last_viewer)) 4 = currentStreamId init 4"
    by (simp add: last_viewer_value on_close_def Let_def init_def set_delete_def)
  have d: "snd (on_message 0 4 (ParsedObject (join_msg ''join-as-viewer'' abc)) (fst (on_close 3 last_viewer))) =
     snd (on_message 0 4 (ParsedObject (join_msg ''join-as-viewer'' abc)) init)"
    using session_lifecycle [where ?s1.0 = "fst (on_close 3 last_viewer)" and ?s2.0 = init
        and sid = abc and ws = 4 and now = 0
        and message = "ParsedObject (join_msg ''join-as-viewer'' abc)"] c i ag cs
    by simp
  from a b c d i sd lv show ?thesis by simp
qed

text \<open>
  In the scenario, text that is not JSON from viewer 2 is logged and dropped, and the
  connection of viewer 2 stays open.
\<close>

theorem malformed_payload_discarded_witness:
  "try_body 0 2 Unparseable scenario = Thrown SyntaxError (scenario, []) \<and>
   on_message 0 2 Unparseable scenario = (scenario, [LogError SyntaxError]) \<and>
   readyStateOf (fst (on_message 0 2 Unparseable scenario)) 2 = OPEN"
  using malformed_payload_discarded [of 0 2 Unparseable scenario SyntaxError "(scenario, [])"]
  by (simp add: scenario_value)

section \<open>Properties of the peer connection manager\<close>

lemmas streamer_defs =
  viewing_def broadcasting_def camera_def new_streamer_def startViewing_def startBroadcast_def
  createPeerConnection_def postMessage_def did_def deliver_def onmessage_def viewerRequest_def
  handleOffer_def handleAnswer_def handleIceCandidate_def stopBroadcast_def close_def
  w3c_def rejecting_remote_def Let_def


lemma viewing_value:
  "viewing = \<lparr>peerConnection = Some \<lparr>pc_id = 0, pc_closed = False, pc_tracks = [],
                  localDescription = None, remoteDescription = None, remoteCandidates = []\<rparr>,
      onStreamCallback = True, onViewerRequest = False, localStream = None,
      channelClosed = False, created = 1, trace = [PostMessage RequestStream]\<rparr>"
  by (simp add: streamer_defs)

lemma w3c_add_after:
  "remoteDescription p \<noteq> None \<Longrightarrow> \<not> pc_closed p \<Longrightarrow>
   addIceCandidate w3c p c = Inr (p\<lparr>remoteCandidates := remoteCandidates p @ [c]\<rparr>)"
  by (simp add: w3c_def)

lemma deliver_candidates_w3c:
  "peerConnection s = Some p \<Longrightarrow> remoteDescription p \<noteq> None \<Longrightarrow> \<not> pc_closed p \<Longrightarrow>
   \<not> channelClosed s \<Longrightarrow>
   peerConnection (deliver_all w3c s (map IceCandidate cs)) =
     Some (p\<lparr>remoteCandidates := remoteCandidates p @ cs\<rparr>)"
proof (induction cs arbitrary: s p)
  case Nil
  then show ?case by simp
next
  case (Cons c cs)
  let ?p = "p\<lparr>remoteCandidates := remoteCandidates p @ [c]\<rparr>"
  let ?s = "state_of (deliver w3c s (IceCandidate c))"
  have s1: "?s = (did [Call (pc_id p) (AddIceCandidate c)] s)\<lparr>peerConnection := Some ?p\<rparr>"
    using Cons.prems
    by (simp add: deliver_def onmessage_def handleIceCandidate_def Let_def w3c_add_after)
  have "peerConnection (deliver_all w3c ?s (map IceCandidate cs)) =
     Some (?p\<lparr>remoteCandidates := remoteCandidates ?p @ cs\<rparr>)"
    by (rule Cons.IH) (use Cons.prems in \<open>simp_all add: s1 did_def\<close>)
  then show ?case by simp
qed

text \<open>
  Claim C1, as the code has it. The streamer has no queue of remote candidates. With a
  peer connection, a remote candidate is handed to \<^verbatim>\<open>addIceCandidate\<close> at once, one
  time, whatever the browser is: when the browser rejects it, the error is logged and
  the streamer is otherwise unchanged, so the candidate is gone; when the browser
  accepts it, the peer connection is the one the browser returns. With a browser that
  follows the W3C API, a candidate that arrives before the remote description is set
  leaves the peer connection as it was, and candidates that arrive after the remote
  description is set are applied in arrival order, each one time.
\<close>

theorem candidates_not_buffered:
  "(peerConnection s = Some p \<and> addIceCandidate b p c = Inl e \<longrightarrow>
      handleIceCandidate b s c =
        Resolved (did [Call (pc_id p) (AddIceCandidate c),
                       ConsoleError (ErrorAddingIceCandidate e)] s)) \<and>
   (peerConnection s = Some p \<and> addIceCandidate b p c = Inr p' \<longrightarrow>
      handleIceCandidate b s c =
        Resolved ((did [Call (pc_id p) (AddIceCandidate c)] s)\<lparr>peerConnection := Some p'\<rparr>)) \<and>
   (peerConnection s = Some p \<and> remoteDescription p = None \<longrightarrow>
      peerConnection (state_of (handleIceCandidate w3c s c)) = Some p) \<and>
   (peerConnection s = Some p \<and> remoteDescription p \<noteq> None \<and> \<not> pc_closed p \<and>
    \<not> channelClosed s \<longrightarrow>
      peerConnection (deliver_all w3c s (map IceCandidate cs)) =
        Some (p\<lparr>remoteCandidates := remoteCandidates p @ cs\<rparr>))"
proof (intro conjI impI)
  assume "peerConnection s = Some p \<and> addIceCandidate b p c = Inl e"
  then show "handleIceCandidate b s c =
        Resolved (did [Call (pc_id p) (AddIceCandidate c),
                       ConsoleError (ErrorAddingIceCandidate e)] s)"
    by (simp add: handleIceCandidate_def Let_def did_def)
next
  assume "peerConnection s = Some p \<and> addIceCandidate b p c = Inr p'"
  then show "handleIceCandidate b s c =
        Resolved ((did [Call (pc_id p) (AddIceCandidate c)] s)\<lparr>peerConnection := Some p'\<rparr>)"
    by (simp add: handleIceCandidate_def Let_def)
next
  assume "peerConnection s = Some p \<and> remoteDescription p = None"
  then show "peerConnection (state_of (handleIceCandidate w3c s c)) = Some p"
    by (simp add: handleIceCandidate_def Let_def did_def w3c_def)
next
  assume "peerConnection s = Some p \<and> remoteDescription p \<noteq> None \<and> \<not> pc_closed p \<and>
    \<not> channelClosed s"
  then show "peerConnection (deliver_all w3c s (map IceCandidate cs)) =
        Some (p\<lparr>remoteCandidates := remoteCandidates p @ cs\<rparr>)"
    using deliver_candidates_w3c by blast
qed

text \<open>
  Claim C1 as the specification words it fails: the viewer has a peer connection with
  no remote description; the candidate \<^verbatim>\<open>c1\<close> arrives, then the offer. After the
  offer the remote description is set and the peer connection has no remote candidate:
  \<^verbatim>\<open>c1\<close> was offered to the browser before the description was set, rejected,
  logged, and never applied.
\<close>

theorem early_candidate_lost_counterexample:
  "map_option remoteDescription (peerConnection viewing) = Some None \<and>
   map_option remoteDescription
     (peerConnection (deliver_all w3c viewing [IceCandidate ''c1'', Offer ''sdp''])) = Some (Some ''sdp'') \<and>
   map_option remoteCandidates
     (peerConnection (deliver_all w3c viewing [IceCandidate ''c1'', Offer ''sdp''])) = Some [] \<and>
   trace (deliver_all w3c viewing [IceCandidate ''c1'', Offer ''sdp'']) =
     [PostMessage RequestStream,
      Call 0 (AddIceCandidate ''c1''), ConsoleError (ErrorAddingIceCandidate InvalidStateError),
      Call 0 (SetRemoteDescription ''sdp''), Call 0 CreateAnswer,
      Call 0 (SetLocalDescription ''answer''), PostMessage (Answer ''answer'')]"
  by (simp add: streamer_defs)

text \<open>
  A viewer that has started viewing: the candidate \<^verbatim>\<open>c1\<close> that arrives before the
  offer is rejected and logged; after an offer, the candidates \<^verbatim>\<open>c1\<close> and \<^verbatim>\<open>c2\<close> are
  applied in that order.
\<close>

theorem candidates_not_buffered_witness:
  "handleIceCandidate w3c viewing ''c1'' =
     Resolved (did [Call 0 (AddIceCandidate ''c1''),
                    ConsoleError (ErrorAddingIceCandidate InvalidStateError)] viewing) \<and>
   peerConnection (state_of (handleIceCandidate w3c viewing ''c1'')) = peerConnection viewing \<and>
   map_option remoteCandidates
     (peerConnection (deliver_all w3c (deliver_all w3c viewing [Offer ''sdp''])
                        (map IceCandidate [''c1'', ''c2'']))) = Some [''c1'', ''c2'']"
proof -
  let ?p = "\<lparr>pc_id = 0, pc_closed = False, pc_tracks = [], localDescription = None,
             remoteDescription = None, remoteCandidates = []\<rparr>"
  let ?q = "\<lparr>pc_id = 0, pc_closed = False, pc_tracks = [], localDescription = Some ''answer'',
             remoteDescription = Some ''sdp'', remoteCandidates = []\<rparr>"
  let ?s = "deliver_all w3c viewing [Offer ''sdp'']"
  have p: "peerConnection viewing = Some ?p"
    by (simp add: viewing_value)
  have rej: "addIceCandidate w3c ?p ''c1'' = Inl InvalidStateError"
    by (simp add: w3c_def)
  have q: "peerConnection ?s = Some ?q" "\<not> channelClosed ?s"
    by (simp_all add: viewing_value deliver_def onmessage_def handleOffer_def Let_def did_def
          postMessage_def w3c_def)
  have a: "handleIceCandidate w3c viewing ''c1'' =
     Resolved (did [Call 0 (AddIceCandidate ''c1''),
                    ConsoleError (ErrorAddingIceCandidate InvalidStateError)] viewing)"
    using candidates_not_buffered [where s = viewing and p = ?p and b = w3c and c = "''c1''"
        and e = InvalidStateError] p rej
    by simp
  have b: "peerConnection (state_of (handleIceCandidate w3c viewing ''c1'')) = peerConnection viewing"
    using candidates_not_buffered [where s = viewing and p = ?p and c = "''c1''"] p
    by simp
  have c: "peerConnection (deliver_all w3c ?s (map IceCandidate [''c1'', ''c2''])) =
     Some (?q\<lparr>remoteCandidates := remoteCandidates ?q @ [''c1'', ''c2'']\<rparr>)"
    using candidates_not_buffered [where s = ?s and p = ?q and cs = "[''c1'', ''c2'']"] q
    by simp
  from a b c show ?thesis by simp
qed

lemma handleOffer_resolves: "\<not> is_rejected (handleOffer b s offer)"
  by (simp add: handleOffer_def Let_def split: option.splits sum.splits)

lemma handleAnswer_resolves: "\<not> is_rejected (handleAnswer b s answer)"
  by (simp add: handleAnswer_def Let_def split: option.splits sum.splits)

lemma handleIceCandidate_resolves: "\<not> is_rejected (handleIceCandidate b s c)"
  by (simp add: handleIceCandidate_def Let_def split: option.splits sum.splits)

text \<open>
  Claim C8, as the code has it. Whatever the browser does, \<^verbatim>\<open>handleOffer\<close>,
  \<^verbatim>\<open>handleAnswer\<close> and \<^verbatim>\<open>handleIceCandidate\<close> are never rejected. When
  \<^verbatim>\<open>setRemoteDescription\<close>, \<^verbatim>\<open>createAnswer\<close>, \<^verbatim>\<open>setLocalDescription\<close> or
  \<^verbatim>\<open>addIceCandidate\<close> rejects, the handler stops there, logs the error with
  \<^verbatim>\<open>console.error\<close> and resolves; the failed operation has been called one time and is
  not called again.
\<close>

theorem negotiation_failures_logged:
  "\<not> is_rejected (handleOffer b s offer) \<and>
   \<not> is_rejected (handleAnswer b s answer) \<and>
   \<not> is_rejected (handleIceCandidate b s c) \<and>
   (peerConnection s = Some p \<and> setRemoteDescription b p offer = Inl e \<longrightarrow>
      handleOffer b s offer =
        Resolved (did [Call (pc_id p) (SetRemoteDescription offer),
                       ConsoleError (ErrorHandlingOffer e)] s)) \<and>
   (peerConnection s = Some p \<and> setRemoteDescription b p offer = Inr p1 \<and>
    createAnswer b p1 = Inl e \<longrightarrow>
      handleOffer b s offer =
        Resolved (did [Call (pc_id p) (SetRemoteDescription offer), Call (pc_id p) CreateAnswer,
                       ConsoleError (ErrorHandlingOffer e)] (s\<lparr>peerConnection := Some p1\<rparr>))) \<and>
   (peerConnection s = Some p \<and> setRemoteDescription b p offer = Inr p1 \<and>
    createAnswer b p1 = Inr ans \<and> setLocalDescription b p1 ans = Inl e \<longrightarrow>
      handleOffer b s offer =
        Resolved (did [Call (pc_id p) (SetRemoteDescription offer), Call (pc_id p) CreateAnswer,
                       Call (pc_id p) (SetLocalDescription ans),
                       ConsoleError (ErrorHandlingOffer e)] (s\<lparr>peerConnection := Some p1\<rparr>))) \<and>
   (peerConnection s = Some p \<and> setRemoteDescription b p answer = Inl e \<longrightarrow>
      handleAnswer b s answer =
        Resolved (did [Call (pc_id p) (SetRemoteDescription answer),
                       ConsoleError (ErrorHandlingAnswer e)] s)) \<and>
   (peerConnection s = Some p \<and> addIceCandidate b p c = Inl e \<longrightarrow>
      handleIceCandidate b s c =
        Resolved (did [Call (pc_id p) (AddIceCandidate c),
                       ConsoleError (ErrorAddingIceCandidate e)] s))"
proof (intro conjI impI)
  show "\<not> is_rejected (handleOffer b s offer)" by (rule handleOffer_resolves)
  show "\<not> is_rejected (handleAnswer b s answer)" by (rule handleAnswer_resolves)
  show "\<not> is_rejected (handleIceCandidate b s c)" by (rule handleIceCandidate_resolves)
next
  assume "peerConnection s = Some p \<and> setRemoteDescription b p offer = Inl e"
  then show "handleOffer b s offer =
        Resolved (did [Call (pc_id p) (SetRemoteDescription offer),
                       ConsoleError (ErrorHandlingOffer e)] s)"
    by (simp add: handleOffer_def Let_def did_def)
next
  assume "peerConnection s = Some p \<and> setRemoteDescription b p offer = Inr p1 \<and>
    createAnswer b p1 = Inl e"
  then show "handleOffer b s offer =
        Resolved (did [Call (pc_id p) (SetRemoteDescription offer), Call (pc_id p) CreateAnswer,
                       ConsoleError (ErrorHandlingOffer e)] (s\<lparr>peerConnection := Some p1\<rparr>))"
    by (simp add: handleOffer_def Let_def did_def)
next
  assume "peerConnection s = Some p \<and> setRemoteDescription b p offer = Inr p1 \<and>
    createAnswer b p1 = Inr ans \<and> setLocalDescription b p1 ans = Inl e"
  then show "handleOffer b s offer =
        Resolved (did [Call (pc_id p) (SetRemoteDescription offer), Call (pc_id p) CreateAnswer,
                       Call (pc_id p) (SetLocalDescription ans),
                       ConsoleError (ErrorHandlingOffer e)] (s\<lparr>peerConnection := Some p1\<rparr>))"
    by (simp add: handleOffer_def Let_def did_def)
next
  assume "peerConnection s = Some p \<and> setRemoteDescription b p answer = Inl e"
  then show "handleAnswer b s answer =
        Resolved (did [Call (pc_id p) (SetRemoteDescription answer),
                       ConsoleError (ErrorHandlingAnswer e)] s)"
    by (simp add: handleAnswer_def Let_def did_def)
next
  assume "peerConnection s = Some p \<and> addIceCandidate b p c = Inl e"
  then show "handleIceCandidate b s c =
        Resolved (did [Call (pc_id p) (AddIceCandidate c),
                       ConsoleError (ErrorAddingIceCandidate e)] s)"
    by (simp add: handleIceCandidate_def Let_def did_def)
qed

text \<open>
  A viewer whose browser cannot apply the offer: the one call of
  \<^verbatim>\<open>setRemoteDescription\<close> and the logged error are all that \<^verbatim>\<open>handleOffer\<close> does.
\<close>

theorem negotiation_failures_logged_witness:
  "setRemoteDescription rejecting_remote (the (peerConnection viewing)) ''sdp'' = Inl OperationError \<and>
   handleOffer rejecting_remote viewing ''sdp'' =
     Resolved (did [Call 0 (SetRemoteDescription ''sdp''),
                    ConsoleError (ErrorHandlingOffer OperationError)] viewing)"
proof -
  let ?p = "\<lparr>pc_id = 0, pc_closed = False, pc_tracks = [], localDescription = None,
             remoteDescription = None, remoteCandidates = []\<rparr>"
  have p: "peerConnection viewing = Some ?p"
    by (simp add: viewing_value)
  have rej: "setRemoteDescription rejecting_remote ?p ''sdp'' = Inl OperationError"
    by (simp add: rejecting_remote_def)
  from negotiation_failures_logged [where s = viewing and p = ?p and b = rejecting_remote
      and offer = "''sdp''" and e = OperationError] p rej
  show ?thesis by simp
qed

text \<open>
  Claim C8 as the specification words it fails: \<^verbatim>\<open>setRemoteDescription\<close> rejects, and
  neither \<^verbatim>\<open>handleOffer\<close>, nor \<^verbatim>\<open>handleAnswer\<close>, nor the delivery of the offer that
  triggered it is rejected; \<^verbatim>\<open>addIceCandidate\<close> rejects, and \<^verbatim>\<open>handleIceCandidate\<close>
  is not rejected.
\<close>

theorem failure_not_rejected_counterexample:
  "setRemoteDescription rejecting_remote (the (peerConnection viewing)) ''sdp'' = Inl OperationError \<and>
   is_rejected (handleOffer rejecting_remote viewing ''sdp'') = False \<and>
   is_rejected (handleAnswer rejecting_remote viewing ''sdp'') = False \<and>
   is_rejected (deliver rejecting_remote viewing (Offer ''sdp'')) = False \<and>
   addIceCandidate w3c (the (peerConnection viewing)) ''c1'' = Inl InvalidStateError \<and>
   is_rejected (handleIceCandidate w3c viewing ''c1'') = False"
  by (simp add: streamer_defs)






section \<open>Properties of the reconnection\<close>

lemma delays_append: "delays (xs @ ys) = delays xs @ delays ys"
  by (induction xs rule: delays.induct) simp_all

lemma failures_idle: "reconnectTimeout c = None \<Longrightarrow> failures n c = c"
  by (induction n) (simp_all add: timer_fires_def)

lemma failures_add: "failures (m + n) c = failures n (failures m c)"
  by (induction m arbitrary: c) simp_all

lemma timer_fires_below:
  assumes "reconnectTimeout c = Some d" "ws_role c \<noteq> None" "reconnectAttempts c < maxReconnectAttempts"
  shows "timer_fires False c =
     c\<lparr>reconnectTimeout := Some (2000 * (reconnectAttempts c + 1)),
       history := history c @ [WebSocketError, ReconnectFailed,
                               Scheduled (2000 * (reconnectAttempts c + 1))],
       socketOpen := False,
       reconnectAttempts := reconnectAttempts c + 1\<rparr>"
  using assms by (simp add: timer_fires_def onclose_def handleDisconnect_def Let_def)

lemma timer_fires_ceiling:
  assumes "reconnectTimeout c = Some d" "\<not> reconnectAttempts c < maxReconnectAttempts"
  shows "timer_fires False c =
     c\<lparr>reconnectTimeout := None,
       history := history c @ [WebSocketError, ReconnectFailed],
       socketOpen := False\<rparr>"
  using assms by (simp add: timer_fires_def onclose_def handleDisconnect_def Let_def)

lemma failures_pending:
  "reconnectTimeout c = Some d \<Longrightarrow> ws_role c \<noteq> None \<Longrightarrow>
   reconnectAttempts c \<le> maxReconnectAttempts \<Longrightarrow>
   delays (history (failures n c)) =
     delays (history c) @
     map (\<lambda>k. 2000 * k) [Suc (reconnectAttempts c)..<Suc (min (reconnectAttempts c + n) maxReconnectAttempts)] \<and>
   (reconnectTimeout (failures n c) = None \<longleftrightarrow> maxReconnectAttempts < reconnectAttempts c + n)"
proof (induction n arbitrary: c d)
  case 0
  then show ?case by simp
next
  case (Suc n)
  show ?case
  proof (cases "reconnectAttempts c < maxReconnectAttempts")
    case True
    let ?c = "timer_fires False c"
    note tf = timer_fires_below [OF Suc.prems(1,2) True]
    have "delays (history (failures n ?c)) =
        delays (history ?c) @
        map (\<lambda>k. 2000 * k) [Suc (reconnectAttempts ?c)..<Suc (min (reconnectAttempts ?c + n) maxReconnectAttempts)] \<and>
        (reconnectTimeout (failures n ?c) = None \<longleftrightarrow> maxReconnectAttempts < reconnectAttempts ?c + n)"
      by (rule Suc.IH [of ?c "2000 * (reconnectAttempts c + 1)"])
         (use True Suc.prems in \<open>simp_all add: tf\<close>)
    moreover have "[Suc (reconnectAttempts c)..<Suc (min (Suc (reconnectAttempts c + n)) maxReconnectAttempts)] =
        Suc (reconnectAttempts c) #
        [Suc (Suc (reconnectAttempts c))..<Suc (min (Suc (reconnectAttempts c + n)) maxReconnectAttempts)]"
      by (rule upt_conv_Cons) (use True in simp)
    ultimately show ?thesis
      by (simp add: tf delays_append)
  next
    case False
    let ?c = "timer_fires False c"
    note tf = timer_fires_ceiling [OF Suc.prems(1) False]
    have "failures n ?c = ?c"
      by (rule failures_idle) (simp add: tf)
    with False Suc.prems(3) show ?thesis
      by (simp add: tf delays_append)
  qed
qed

lemma onclose_first:
  assumes "reconnectAttempts c = 0" "ws_role c \<noteq> None"
  shows "onclose c = c\<lparr>socketOpen := False, reconnectAttempts := 1,
                        reconnectTimeout := Some 2000,
                        history := history c @ [Scheduled 2000]\<rparr>"
  using assms by (simp add: onclose_def handleDisconnect_def maxReconnectAttempts_def)

lemma reconnect_delays:
  assumes "reconnectAttempts c = 0" "ws_role c \<noteq> None"
  shows "delays (history (failures n (onclose c))) =
     delays (history c) @ map (\<lambda>k. 2000 * k) [1..<Suc (min (Suc n) maxReconnectAttempts)]"
    and "reconnectTimeout (failures n (onclose c)) = None \<longleftrightarrow> maxReconnectAttempts \<le> n"
proof -
  let ?c = "onclose c"
  note oc = onclose_first [OF assms]
  have f: "delays (history (failures n ?c)) =
     delays (history ?c) @
     map (\<lambda>k. 2000 * k) [Suc (reconnectAttempts ?c)..<Suc (min (reconnectAttempts ?c + n) maxReconnectAttempts)] \<and>
   (reconnectTimeout (failures n ?c) = None \<longleftrightarrow> maxReconnectAttempts < reconnectAttempts ?c + n)"
    by (rule failures_pending [of ?c 2000])
       (use assms in \<open>simp_all add: oc maxReconnectAttempts_def\<close>)
  have "[1..<Suc (min (Suc n) maxReconnectAttempts)] =
      1 # [Suc 1..<Suc (min (Suc n) maxReconnectAttempts)]"
    by (simp add: upt_conv_Cons maxReconnectAttempts_def)
  with f show "delays (history (failures n (onclose c))) =
     delays (history c) @ map (\<lambda>k. 2000 * k) [1..<Suc (min (Suc n) maxReconnectAttempts)]"
    by (simp add: oc delays_append)
  from f show "reconnectTimeout (failures n (onclose c)) = None \<longleftrightarrow> maxReconnectAttempts \<le> n"
    by (auto simp: oc)
qed

lemma delays_increasing: "sorted_wrt (<) (map (\<lambda>k. 2000 * k) [i..<j])"
  by (simp add: sorted_wrt_map sorted_wrt_iff_nth_less)

lemma after_ceiling:
  assumes "reconnectAttempts c = 0" "ws_role c \<noteq> None" "maxReconnectAttempts \<le> n"
  shows "failures n (onclose c) = failures maxReconnectAttempts (onclose c)"
proof -
  have idle: "reconnectTimeout (failures maxReconnectAttempts (onclose c)) = None"
    using reconnect_delays(2) [OF assms(1,2), of maxReconnectAttempts] by simp
  from assms(3) obtain k where "n = maxReconnectAttempts + k"
    by (auto simp: le_iff_add)
  then show ?thesis
    by (simp add: failures_add failures_idle [OF idle])
qed

lemma retries_idle: "retryTimeout p = None \<Longrightarrow> retries n p = p"
  by (induction n) (simp_all add: retry_fires_def)

lemma retries_add: "retries (m + n) p = retries n (retries m p)"
  by (induction m arbitrary: p) simp_all

lemma retries_pending:
  "retryTimeout p = Some d \<Longrightarrow> \<not> connected p \<Longrightarrow> retryCount p \<le> maxRetries \<Longrightarrow>
   attempts (retries n p) = attempts p @ replicate (min n (maxRetries - retryCount p)) 3000 \<and>
   connectionStatus (retries n p) = connectionStatus p \<and>
   (retryTimeout (retries n p) = None \<longleftrightarrow> maxRetries - retryCount p < n)"
proof (induction n arbitrary: p d)
  case 0
  then show ?case by simp
next
  case (Suc n)
  show ?case
  proof (cases "retryCount p < maxRetries")
    case True
    let ?p = "retry_fires p"
    have rf: "?p = p\<lparr>retryTimeout := Some 3000, retryCount := retryCount p + 1,
                      attempts := attempts p @ [3000]\<rparr>"
      using True Suc.prems by (simp add: retry_fires_def connectToStream_def Let_def)
    have "attempts (retries n ?p) = attempts ?p @ replicate (min n (maxRetries - retryCount ?p)) 3000 \<and>
        connectionStatus (retries n ?p) = connectionStatus ?p \<and>
        (retryTimeout (retries n ?p) = None \<longleftrightarrow> maxRetries - retryCount ?p < n)"
      by (rule Suc.IH [of ?p 3000]) (use True Suc.prems in \<open>simp_all add: rf\<close>)
    moreover have "min (Suc n) (maxRetries - retryCount p) = Suc (min n (maxRetries - Suc (retryCount p)))"
      using True by simp
    ultimately show ?thesis
      using True by (auto simp: rf)
  next
    case False
    let ?p = "retry_fires p"
    have rf: "?p = p\<lparr>retryTimeout := None\<rparr>"
      using False Suc.prems by (simp add: retry_fires_def Let_def)
    have "retries n ?p = ?p"
      by (rule retries_idle) (simp add: rf)
    with False Suc.prems(3) show ?thesis
      by (simp add: rf)
  qed
qed

lemma start_player_value:
  "start_player = \<lparr>retryCount = 0, connected = False, retryTimeout = Some 3000,
                    connectionStatus = StatusBuffering, attempts = [3000]\<rparr>"
  by (simp add: start_player_def connectToStream_def)

lemma player_attempts:
  "attempts (retries n start_player) = replicate (Suc (min n maxRetries)) 3000"
  "connectionStatus (retries n start_player) = StatusBuffering"
  "retryTimeout (retries n start_player) = None \<longleftrightarrow> maxRetries < n"
  using retries_pending [of start_player 3000 n]
  by (simp_all add: start_player_value)

lemma player_after_ceiling:
  assumes "maxRetries < n"
  shows "retries n start_player = retries (Suc maxRetries) start_player"
proof -
  have idle: "retryTimeout (retries (Suc maxRetries) start_player) = None"
    using player_attempts(3) [of "Suc maxRetries"] by simp
  from assms obtain k where "n = Suc maxRetries + k"
    by (metis Suc_leI le_iff_add)
  then show ?thesis
    by (simp only: retries_add retries_idle [OF idle])
qed

lemma fail_step:
  "a < 5 \<Longrightarrow>
   timer_fires False \<lparr>reconnectAttempts = a, ws_role = Some r, hasLocalStream = l,
      socketOpen = opn, reconnectTimeout = Some d, history = h\<rparr> =
     \<lparr>reconnectAttempts = a + 1, ws_role = Some r, hasLocalStream = l, socketOpen = False,
      reconnectTimeout = Some (2000 * (a + 1)),
      history = h @ [WebSocketError, ReconnectFailed, Scheduled (2000 * (a + 1))]\<rparr>"
  by (simp add: timer_fires_def onclose_def handleDisconnect_def maxReconnectAttempts_def)

lemma fail_last:
  "5 \<le> a \<Longrightarrow>
   timer_fires False \<lparr>reconnectAttempts = a, ws_role = Some r, hasLocalStream = l,
      socketOpen = opn, reconnectTimeout = Some d, history = h\<rparr> =
     \<lparr>reconnectAttempts = a, ws_role = Some r, hasLocalStream = l, socketOpen = False,
      reconnectTimeout = None, history = h @ [WebSocketError, ReconnectFailed]\<rparr>"
  by (simp add: timer_fires_def onclose_def handleDisconnect_def maxReconnectAttempts_def)

lemma lost_value:
  "onclose connected_viewer =
     \<lparr>reconnectAttempts = 1, ws_role = Some Viewer, hasLocalStream = False,
      socketOpen = False, reconnectTimeout = Some 2000, history = [Scheduled 2000]\<rparr>"
  by (simp add: connected_viewer_def onclose_def handleDisconnect_def maxReconnectAttempts_def)

lemma five_steps: "failures 5 c =
  timer_fires False (timer_fires False (timer_fires False (timer_fires False (timer_fires False c))))"
  by (simp add: eval_nat_numeral)

lemma five_failures:
  "failures 5 (onclose connected_viewer) =
     \<lparr>reconnectAttempts = 5, ws_role = Some Viewer, hasLocalStream = False,
      socketOpen = False, reconnectTimeout = None,
      history =
        [Scheduled 2000, WebSocketError, ReconnectFailed,
         Scheduled 4000, WebSocketError, ReconnectFailed,
         Scheduled 6000, WebSocketError, ReconnectFailed,
         Scheduled 8000, WebSocketError, ReconnectFailed,
         Scheduled 10000, WebSocketError, ReconnectFailed]\<rparr>"
  by (simp add: five_steps lost_value fail_step fail_last)

text \<open>
  Claim C5 as the specification words it fails. In the coordinator, the fifth failed
  attempt emits the two log lines that every failed attempt emits and nothing else;
  afterwards no timer is pending and \<^verbatim>\<open>handleDisconnect\<close> changes nothing: the failure
  is not surfaced as terminal. In the retry loop of the player the delays of
  successive attempts are equal, not increasing, and after the last retry the status
  is still buffering.
\<close>

theorem silent_after_ceiling_counterexample:
  "history (failures 5 (onclose connected_viewer)) =
     [Scheduled 2000, WebSocketError, ReconnectFailed,
      Scheduled 4000, WebSocketError, ReconnectFailed,
      Scheduled 6000, WebSocketError, ReconnectFailed,
      Scheduled 8000, WebSocketError, ReconnectFailed,
      Scheduled 10000, WebSocketError, ReconnectFailed] \<and>
   reconnectAttempts (failures 5 (onclose connected_viewer)) = maxReconnectAttempts \<and>
   reconnectTimeout (failures 5 (onclose connected_viewer)) = None \<and>
   handleDisconnect (failures 5 (onclose connected_viewer)) = failures 5 (onclose connected_viewer) \<and>
   attempts (retries 2 start_player) = [3000, 3000, 3000] \<and>
   retryTimeout (retries 11 start_player) = None \<and>
   connectionStatus (retries 11 start_player) = StatusBuffering"
proof -
  have r: "replicate (Suc (min 2 10)) (3000 :: nat) = [3000, 3000, 3000]"
    by code_simp
  have a: "attempts (retries 2 start_player) = [3000, 3000, 3000]"
    using player_attempts(1) [of 2] r by (simp add: maxRetries_def)
  have b: "retryTimeout (retries 11 start_player) = None"
    using player_attempts(3) [of 11] by (simp add: maxRetries_def)
  have c: "connectionStatus (retries 11 start_player) = StatusBuffering"
    by (rule player_attempts(2))
  have d: "handleDisconnect (failures 5 (onclose connected_viewer)) = failures 5 (onclose connected_viewer)"
    by (simp add: five_failures handleDisconnect_def maxReconnectAttempts_def)
  show ?thesis
    by (simp add: a b c d) (simp add: five_failures maxReconnectAttempts_def)
qed

text \<open>
  Claim C5, as the code has it. In the session coordinator, after a connection loss
  with a role set and no earlier failed attempt, the reconnect timers set during \<open>n\<close>
  failed attempts have the delays 2000, 4000, ... (attempt number times 2000
  milliseconds), strictly increasing, five at most; once five attempts have failed no
  timer is pending and further events change nothing: the coordinator does not retry
  again. At the ceiling \<^verbatim>\<open>handleDisconnect\<close> does nothing at all: it changes no field,
  sets no timer and emits nothing, so the last failure is not told apart from the
  others and nothing is surfaced to the caller. In the retry loop of the stream player
  every attempt sets its retry timer to the same 3000 milliseconds; there are ten
  retries at most, after which no timer is pending and the status stays buffering.
\<close>

theorem reconnect_schedule:
  "(reconnectAttempts c = 0 \<and> ws_role c \<noteq> None \<longrightarrow>
      delays (history (failures n (onclose c))) =
        delays (history c) @ map (\<lambda>k. 2000 * k) [1..<Suc (min (Suc n) maxReconnectAttempts)] \<and>
      sorted_wrt (<) (map (\<lambda>k. 2000 * k) [1..<Suc (min (Suc n) maxReconnectAttempts)]) \<and>
      (reconnectTimeout (failures n (onclose c)) = None \<longleftrightarrow> maxReconnectAttempts \<le> n) \<and>
      (maxReconnectAttempts \<le> n \<longrightarrow>
         failures n (onclose c) = failures maxReconnectAttempts (onclose c))) \<and>
   (reconnectAttempts c = maxReconnectAttempts \<longrightarrow> handleDisconnect c = c) \<and>
   attempts (retries n start_player) = replicate (Suc (min n maxRetries)) 3000 \<and>
   connectionStatus (retries n start_player) = StatusBuffering \<and>
   (retryTimeout (retries n start_player) = None \<longleftrightarrow> maxRetries < n) \<and>
   (maxRetries < n \<longrightarrow> retries n start_player = retries (Suc maxRetries) start_player)"
proof (intro conjI impI)
  assume a: "reconnectAttempts c = 0 \<and> ws_role c \<noteq> None"
  then show "delays (history (failures n (onclose c))) =
        delays (history c) @ map (\<lambda>k. 2000 * k) [1..<Suc (min (Suc n) maxReconnectAttempts)]"
    using reconnect_delays(1) by blast
  from a show "reconnectTimeout (failures n (onclose c)) = None \<longleftrightarrow> maxReconnectAttempts \<le> n"
    using reconnect_delays(2) by blast
  show "sorted_wrt (<) (map (\<lambda>k. 2000 * k) [1..<Suc (min (Suc n) maxReconnectAttempts)])"
    by (rule delays_increasing)
  assume "maxReconnectAttempts \<le> n"
  with a show "failures n (onclose c) = failures maxReconnectAttempts (onclose c)"
    using after_ceiling by blast
next
  assume "reconnectAttempts c = maxReconnectAttempts"
  then show "handleDisconnect c = c"
    by (simp add: handleDisconnect_def)
next
  show "attempts (retries n start_player) = replicate (Suc (min n maxRetries)) 3000"
    by (rule player_attempts)
  show "connectionStatus (retries n start_player) = StatusBuffering"
    by (rule player_attempts)
  show "retryTimeout (retries n start_player) = None \<longleftrightarrow> maxRetries < n"
    by (rule player_attempts)
next
  assume "maxRetries < n"
  then show "retries n start_player = retries (Suc maxRetries) start_player"
    by (rule player_after_ceiling)
qed

text \<open>
  A connected viewer that loses its connection: five timers, of 2000 to 10000
  milliseconds; seven failures leave it where five do. The player: three attempts,
  3000 milliseconds each; twelve firings leave it where eleven do.
\<close>

theorem reconnect_schedule_witness:
  "delays (history (failures 5 (onclose connected_viewer))) = [2000, 4000, 6000, 8000, 10000] \<and>
   reconnectTimeout (failures 5 (onclose connected_viewer)) = None \<and>
   failures 7 (onclose connected_viewer) = failures 5 (onclose connected_viewer) \<and>
   attempts (retries 2 start_player) = [3000, 3000, 3000] \<and>
   retries 12 start_player = retries 11 start_player"
proof -
  have c: "reconnectAttempts connected_viewer = 0" "ws_role connected_viewer \<noteq> None"
    "history connected_viewer = []"
    by (simp_all add: connected_viewer_def)
  have u: "[1..<6] = [1, 2, 3, 4, 5 :: nat]"
    by code_simp
  from reconnect_schedule [of connected_viewer 5] c u
  have a: "delays (history (failures 5 (onclose connected_viewer))) = [2000, 4000, 6000, 8000, 10000]"
    "reconnectTimeout (failures 5 (onclose connected_viewer)) = None"
    by (simp_all add: maxReconnectAttempts_def)
  from reconnect_schedule [of connected_viewer 7] c
  have e: "failures 7 (onclose connected_viewer) = failures 5 (onclose connected_viewer)"
    by (simp add: maxReconnectAttempts_def)
  have r: "replicate (Suc (min 2 10)) (3000 :: nat) = [3000, 3000, 3000]"
    by code_simp
  from reconnect_schedule [of connected_viewer 2] r
  have b: "attempts (retries 2 start_player) = [3000, 3000, 3000]"
    by (simp add: maxRetries_def)
  from reconnect_schedule [of connected_viewer 12]
  have d: "retries 12 start_player = retries 11 start_player"
    by (simp add: maxRetries_def)
  from a e b d show ?thesis by simp
qed

section \<open>Properties of the adaptive bitrate controller\<close>








end
